theory Spec2Isabelle
  imports Main
begin

text \<open>
  A shallow embedding of the Brave Search MCP server: the rate limiter and the API client
  of \<^verbatim>\<open>apiClient.ts\<close>, the type guards of \<^verbatim>\<open>tools.ts\<close>, and the search functions
  and the \<^verbatim>\<open>call_tool\<close> handler of \<^verbatim>\<open>index.ts\<close>. A function that may throw returns a
  sum, \<open>Inl\<close> carrying what was thrown; a function that reads the clock, calls the remote
  API or touches the trackers takes the state and returns the new one. Console output
  (the \<^verbatim>\<open>LOG_LEVEL\<close> branches) is left out.
\<close>

section \<open>JavaScript values used by the server\<close>

text \<open>
  A JavaScript number is NaN, one of the two infinities, or a finite value. The finite
  values the server handles (counts, offsets, HTTP statuses) are integers that
  \<^verbatim>\<open>toString\<close> prints in plain decimal, and are modelled as \<open>int\<close>.
\<close>

datatype jsnum = NaN | PosInf | NegInf | Fin int

fun isNaN :: "jsnum \<Rightarrow> bool" where
  "isNaN NaN = True"
| "isNaN _ = False"

fun isFinite :: "jsnum \<Rightarrow> bool" where
  "isFinite (Fin _) = True"
| "isFinite _ = False"

text \<open>\<^verbatim>\<open>Math.min\<close> and \<^verbatim>\<open>Math.max\<close> on two arguments: NaN is contagious.\<close>

fun Math_min :: "jsnum \<Rightarrow> jsnum \<Rightarrow> jsnum" where
  "Math_min NaN _ = NaN"
| "Math_min _ NaN = NaN"
| "Math_min NegInf _ = NegInf"
| "Math_min _ NegInf = NegInf"
| "Math_min PosInf b = b"
| "Math_min a PosInf = a"
| "Math_min (Fin a) (Fin b) = Fin (min a b)"

fun Math_max :: "jsnum \<Rightarrow> jsnum \<Rightarrow> jsnum" where
  "Math_max NaN _ = NaN"
| "Math_max _ NaN = NaN"
| "Math_max PosInf _ = PosInf"
| "Math_max _ PosInf = PosInf"
| "Math_max NegInf b = b"
| "Math_max a NegInf = a"
| "Math_max (Fin a) (Fin b) = Fin (max a b)"

text \<open>The order of the extended number line; nothing compares with NaN.\<close>

fun js_le :: "jsnum \<Rightarrow> jsnum \<Rightarrow> bool" where
  "js_le NaN _ = False"
| "js_le _ NaN = False"
| "js_le NegInf _ = True"
| "js_le _ PosInf = True"
| "js_le (Fin a) (Fin b) = (a \<le> b)"
| "js_le _ _ = False"

text \<open>\<^verbatim>\<open>Number.prototype.toString\<close> in base ten.\<close>

definition digit_char :: "nat \<Rightarrow> char" where
  "digit_char d = ''0123456789'' ! d"

fun nat_toString :: "nat \<Rightarrow> string" where
  "nat_toString n =
     (if n < 10 then [digit_char n] else nat_toString (n div 10) @ [digit_char (n mod 10)])"

declare nat_toString.simps [simp del]

definition int_toString :: "int \<Rightarrow> string" where
  "int_toString i = (if i < 0 then ''-'' @ nat_toString (nat (- i)) else nat_toString (nat i))"

fun toString :: "jsnum \<Rightarrow> string" where
  "toString NaN = ''NaN''"
| "toString PosInf = ''Infinity''"
| "toString NegInf = ''-Infinity''"
| "toString (Fin i) = int_toString i"

text \<open>\<^verbatim>\<open>x || d\<close> on an optional string: the empty string is falsy too.\<close>

fun or_else :: "string option \<Rightarrow> string \<Rightarrow> string" where
  "or_else None d = d"
| "or_else (Some s) d = (if s = [] then d else s)"

text \<open>\<^verbatim>\<open>String.prototype.includes\<close>, \<^verbatim>\<open>split\<close> on one character and \<^verbatim>\<open>Array.prototype.join\<close>.\<close>

fun str_includes :: "string \<Rightarrow> string \<Rightarrow> bool" where
  "str_includes [] sub = (sub = [])"
| "str_includes (x # xs) sub = (take (length sub) (x # xs) = sub \<or> str_includes xs sub)"

fun split_on :: "char \<Rightarrow> string \<Rightarrow> string list" where
  "split_on c [] = [[]]"
| "split_on c (x # xs) =
     (if x = c then [] # split_on c xs
      else (case split_on c xs of [] \<Rightarrow> [[x]] | p # ps \<Rightarrow> (x # p) # ps))"

fun join :: "string \<Rightarrow> string list \<Rightarrow> string" where
  "join sep [] = []"
| "join sep [x] = x"
| "join sep (x # y # ys) = x @ sep @ join sep (y # ys)"

section \<open>URLs and their search parameters\<close>

text \<open>
  A \<^verbatim>\<open>URL\<close> on the fixed origin \<^verbatim>\<open>https://api.search.brave.com\<close>: its path and its
  \<^verbatim>\<open>searchParams\<close>, an ordered list of name/value pairs.
\<close>

record url =
  pathname :: string
  searchParams :: "(string \<times> string) list"

definition new_URL :: "string \<Rightarrow> url" where
  "new_URL p = \<lparr>pathname = p, searchParams = []\<rparr>"

text \<open>\<^verbatim>\<open>URLSearchParams\<close>: \<^verbatim>\<open>get\<close> reads the first value of a name, \<^verbatim>\<open>set\<close> overwrites
  the first pair of that name and drops the others (or appends), \<^verbatim>\<open>append\<close> adds at the end.\<close>

definition sp_get :: "string \<Rightarrow> (string \<times> string) list \<Rightarrow> string option" where
  "sp_get k ps = map_of ps k"

definition sp_has :: "string \<Rightarrow> (string \<times> string) list \<Rightarrow> bool" where
  "sp_has k ps = (k \<in> set (map fst ps))"

fun sp_set :: "string \<Rightarrow> string \<Rightarrow> (string \<times> string) list \<Rightarrow> (string \<times> string) list" where
  "sp_set k v [] = [(k, v)]"
| "sp_set k v (p # ps) =
     (if fst p = k then (k, v) # filter (\<lambda>q. fst q \<noteq> k) ps else p # sp_set k v ps)"

definition sp_append :: "string \<Rightarrow> string \<Rightarrow> (string \<times> string) list \<Rightarrow> (string \<times> string) list" where
  "sp_append k v ps = ps @ [(k, v)]"

definition set_param :: "string \<Rightarrow> string \<Rightarrow> url \<Rightarrow> url" where
  "set_param k v u = u\<lparr>searchParams := sp_set k v (searchParams u)\<rparr>"

definition append_param :: "string \<Rightarrow> string \<Rightarrow> url \<Rightarrow> url" where
  "append_param k v u = u\<lparr>searchParams := sp_append k v (searchParams u)\<rparr>"

section \<open>Errors\<close>

text \<open>
  \<^verbatim>\<open>BraveApiError(message, status?, details?)\<close>. Anything else that is thrown is either
  an \<^verbatim>\<open>Error\<close> object, kept by its message, or another value, kept by \<^verbatim>\<open>String(value)\<close>.
\<close>

datatype BraveApiError =
  BraveApiError (message: string) (status: "jsnum option") (details: "string option")

datatype cause = ErrorObject string | OtherValue string

datatype thrown = ApiError BraveApiError | Generic cause

text \<open>\<^verbatim>\<open>error instanceof Error ? error.message : String(error)\<close>\<close>

fun describe :: "cause \<Rightarrow> string" where
  "describe (ErrorObject m) = m"
| "describe (OtherValue v) = v"

section \<open>The host and the mutable state\<close>

text \<open>
  What the server reads from outside and never writes: the process environment, the wall
  clock (\<open>clock h n\<close> is the value of the \<open>n\<close>-th call of \<^verbatim>\<open>Date.now()\<close>) and the remote
  API. The reply to the \<open>n\<close>-th request handed to \<^verbatim>\<open>fetch\<close> is given at the type the
  caller casts the parsed body to, one field for each response shape.
\<close>

record 'a response =
  http_status :: int
  statusText :: string
  body_text :: "cause + string"
  body_json :: "cause + 'a"

definition ok :: "'a response \<Rightarrow> bool" where
  "ok r = (200 \<le> http_status r \<and> http_status r \<le> 299)"

datatype 'a fetch_outcome = FetchRejects cause | Responds "'a response"

record tracker =
  lastCallTime :: int
  callCount :: int

record http_request =
  target :: url
  headers :: "(string \<times> string) list"

text \<open>The response shapes of \<^verbatim>\<open>apiClient.ts\<close>; an optional field is an \<open>option\<close>, and
  the fields the server never reads (language, published, rank, coordinates) are left out.\<close>

record web_result =
  title :: "string option"
  description :: "string option"
  result_url :: "string option"

record location_result =
  location_id :: "string option"
  location_title :: "string option"

record BraveWeb =
  web_results :: "web_result list option"
  location_results :: "location_result list option"

record address =
  streetAddress :: "string option"
  addressLocality :: "string option"
  addressRegion :: "string option"
  postalCode :: "string option"

record rating =
  ratingValue :: "jsnum option"
  ratingCount :: "jsnum option"

record BraveLocation =
  poi_id :: string
  poi_name :: "string option"
  poi_address :: "address option"
  phone :: "string option"
  poi_rating :: "rating option"
  openingHours :: "string list option"
  priceRange :: "string option"

record BravePoiResponse =
  poi_results :: "BraveLocation list"

record BraveDescription =
  descriptions :: "(string \<times> string) list"

text \<open>The exported client functions, as a test double would record their invocations.\<close>

datatype api_call =
  WebSearch string "jsnum option" "jsnum option"
| InitialLocalSearch string jsnum
| PoiDetails "string option list"
| PoiDescriptions "string option list"

record host =
  NODE_ENV :: "string option"
  BRAVE_API_KEY :: string
  clock :: "nat \<Rightarrow> int"
  web_reply :: "nat \<Rightarrow> url \<Rightarrow> BraveWeb fetch_outcome"
  poi_reply :: "nat \<Rightarrow> url \<Rightarrow> BravePoiResponse fetch_outcome"
  desc_reply :: "nat \<Rightarrow> url \<Rightarrow> BraveDescription fetch_outcome"

text \<open>
  What the server changes: the module-level map \<^verbatim>\<open>endpointTrackers\<close>, and three
  counters of its dealings with the outside: how often the clock was read, the requests
  handed to \<^verbatim>\<open>fetch\<close>, and the client functions entered.
\<close>

record state =
  endpointTrackers :: "string \<rightharpoonup> tracker"
  ticks :: nat
  sent :: "http_request list"
  calls :: "api_call list"

definition Date_now :: "host \<Rightarrow> state \<Rightarrow> int \<times> state" where
  "Date_now h s = (clock h (ticks s), s\<lparr>ticks := Suc (ticks s)\<rparr>)"

definition resetRateLimiterForTest :: "state \<Rightarrow> state" where
  "resetRateLimiterForTest s = s\<lparr>endpointTrackers := Map.empty\<rparr>"

section \<open>Rate limiting\<close>

definition getEndpointFromUrl :: "url \<Rightarrow> string" where
  "getEndpointFromUrl u =
     (let pathSegments = split_on CHR ''/'' (pathname u)
      in join ''/'' (drop (length pathSegments - 2) pathSegments))"

definition rateLimitExceeded :: thrown where
  "rateLimitExceeded = ApiError (BraveApiError ''Rate limit exceeded: > 1/second'' (Some (Fin 429)) None)"

text \<open>
  The limiter is skipped under \<^verbatim>\<open>NODE_ENV === "test"\<close> unless the \<^verbatim>\<open>q\<close> parameter
  contains \<^verbatim>\<open>req\<close>. \<open>rateLimitSkipped\<close> is the condition of that early return.
\<close>

definition rateLimitSkipped :: "host \<Rightarrow> url \<Rightarrow> bool" where
  "rateLimitSkipped h u =
     (let query = or_else (sp_get ''q'' (searchParams u)) [];
          isRateLimitTest = (NODE_ENV h = Some ''test'' \<and> str_includes query ''req'')
      in NODE_ENV h = Some ''test'' \<and> \<not> isRateLimitTest)"

text \<open>The tracker of an endpoint, initialised when the endpoint is seen for the first time.\<close>

definition tracker_of :: "state \<Rightarrow> string \<Rightarrow> tracker" where
  "tracker_of s endpoint =
     (case endpointTrackers s endpoint of
        None \<Rightarrow> \<lparr>lastCallTime = 0, callCount = 0\<rparr>
      | Some t \<Rightarrow> t)"

definition checkRateLimit :: "host \<Rightarrow> string \<Rightarrow> url \<Rightarrow> state \<Rightarrow> (thrown + unit) \<times> state" where
  "checkRateLimit h endpoint u s =
     (if rateLimitSkipped h u then (Inr (), s)
      else
        let tracker = tracker_of s endpoint;
            s1 = s\<lparr>endpointTrackers := (endpointTrackers s)(endpoint \<mapsto> tracker)\<rparr>;
            (now, s2) = Date_now h s1;
            timeSinceLastCall = now - lastCallTime tracker
        in if timeSinceLastCall < 1000 then (Inl rateLimitExceeded, s2)
           else
             let (now2, s3) = Date_now h s2;
                 tracker2 = tracker\<lparr>lastCallTime := now2, callCount := callCount tracker + 1\<rparr>
             in (Inr (), s3\<lparr>endpointTrackers := (endpointTrackers s3)(endpoint \<mapsto> tracker2)\<rparr>))"

section \<open>The API client\<close>

definition request_of :: "host \<Rightarrow> url \<Rightarrow> http_request" where
  "request_of h u =
     \<lparr>target = u,
      headers = [(''Accept'', ''application/json''),
                 (''Accept-Encoding'', ''gzip''),
                 (''X-Subscription-Token'', BRAVE_API_KEY h)]\<rparr>"

text \<open>
  The body of the \<^verbatim>\<open>try\<close> block of \<^verbatim>\<open>callBraveApi\<close>, on the outcome of \<^verbatim>\<open>fetch\<close>:
  \<^verbatim>\<open>response.text()\<close> and \<^verbatim>\<open>response.json()\<close> may fail in their turn.
\<close>

definition attempt :: "'a fetch_outcome \<Rightarrow> thrown + 'a" where
  "attempt outcome =
     (case outcome of
        FetchRejects c \<Rightarrow> Inl (Generic c)
      | Responds r \<Rightarrow>
          if \<not> ok r then
            (case body_text r of
               Inl c \<Rightarrow> Inl (Generic c)
             | Inr errorText \<Rightarrow>
                 Inl (ApiError (BraveApiError ''API request failed'' (Some (Fin (http_status r)))
                        (Some (statusText r @ '': '' @ take 200 errorText @ ''...'')))))
          else
            (case body_json r of
               Inl c \<Rightarrow> Inl (Generic c)
             | Inr data \<Rightarrow> Inr data))"

text \<open>The \<^verbatim>\<open>catch\<close> block: a \<^verbatim>\<open>BraveApiError\<close> is thrown again, anything else is wrapped.\<close>

definition rethrow :: "thrown + 'a \<Rightarrow> thrown + 'a" where
  "rethrow r =
     (case r of
        Inl (ApiError e) \<Rightarrow> Inl (ApiError e)
      | Inl (Generic c) \<Rightarrow>
          Inl (ApiError (BraveApiError (''Network error calling Brave API: '' @ describe c) None None))
      | Inr data \<Rightarrow> Inr data)"

definition callBraveApi ::
  "host \<Rightarrow> (nat \<Rightarrow> url \<Rightarrow> 'a fetch_outcome) \<Rightarrow> url \<Rightarrow> state \<Rightarrow> (thrown + 'a) \<times> state" where
  "callBraveApi h reply u s =
     (let endpoint = getEndpointFromUrl u
      in case checkRateLimit h endpoint u s of
           (Inl e, s1) \<Rightarrow> (Inl e, s1)
         | (Inr _, s1) \<Rightarrow>
             (rethrow (attempt (reply (length (sent s1)) u)),
              s1\<lparr>sent := sent s1 @ [request_of h u]\<rparr>))"

text \<open>The URL each client function builds.\<close>

definition fetchWebSearch_url :: "string \<Rightarrow> jsnum option \<Rightarrow> jsnum option \<Rightarrow> url" where
  "fetchWebSearch_url query count offset =
     (let u = new_URL ''/res/v1/web/search'';
          u = set_param ''q'' query u;
          u = (case count of
                 Some n \<Rightarrow> if \<not> isNaN n then set_param ''count'' (toString (Math_min n (Fin 20))) u else u
               | None \<Rightarrow> u);
          u = (case offset of
                 Some n \<Rightarrow>
                   if \<not> isNaN n
                   then set_param ''offset'' (toString (Math_max (Fin 0) (Math_min n (Fin 9)))) u
                   else u
               | None \<Rightarrow> u)
      in set_param ''result_filter'' ''web'' u)"

definition fetchWebSearch ::
  "host \<Rightarrow> string \<Rightarrow> jsnum option \<Rightarrow> jsnum option \<Rightarrow> state \<Rightarrow> (thrown + BraveWeb) \<times> state" where
  "fetchWebSearch h query count offset s =
     callBraveApi h (web_reply h) (fetchWebSearch_url query count offset)
       (s\<lparr>calls := calls s @ [WebSearch query count offset]\<rparr>)"

definition fetchInitialLocalSearch_url :: "string \<Rightarrow> jsnum \<Rightarrow> url" where
  "fetchInitialLocalSearch_url query count =
     (let u = new_URL ''/res/v1/web/search'';
          u = set_param ''q'' query u;
          u = set_param ''search_lang'' ''en'' u;
          u = set_param ''result_filter'' ''locations'' u
      in set_param ''count'' (toString (Math_min count (Fin 20))) u)"

definition fetchInitialLocalSearch ::
  "host \<Rightarrow> string \<Rightarrow> jsnum \<Rightarrow> state \<Rightarrow> (thrown + BraveWeb) \<times> state" where
  "fetchInitialLocalSearch h query count s =
     callBraveApi h (web_reply h) (fetchInitialLocalSearch_url query count)
       (s\<lparr>calls := calls s @ [InitialLocalSearch query count]\<rparr>)"

text \<open>
  An id handed to the POI functions is a string, or \<open>None\<close> for \<^verbatim>\<open>null\<close> and
  \<^verbatim>\<open>undefined\<close>; \<^verbatim>\<open>filter(Boolean)\<close> keeps the non-empty strings of a list.
\<close>

fun filter_Boolean :: "string option list \<Rightarrow> string list" where
  "filter_Boolean [] = []"
| "filter_Boolean (None # ids) = filter_Boolean ids"
| "filter_Boolean (Some i # ids) = (if i = [] then filter_Boolean ids else i # filter_Boolean ids)"

definition ids_url :: "string \<Rightarrow> string option list \<Rightarrow> url" where
  "ids_url path ids = foldl (\<lambda>u i. append_param ''ids'' i u) (new_URL path) (filter_Boolean ids)"

definition fetchPoiDetails ::
  "host \<Rightarrow> string option list \<Rightarrow> state \<Rightarrow> (thrown + BravePoiResponse) \<times> state" where
  "fetchPoiDetails h ids s =
     (let s0 = s\<lparr>calls := calls s @ [PoiDetails ids]\<rparr>
      in if length ids = 0 then (Inr \<lparr>poi_results = []\<rparr>, s0)
         else callBraveApi h (poi_reply h) (ids_url ''/res/v1/local/pois'' ids) s0)"

definition fetchPoiDescriptions ::
  "host \<Rightarrow> string option list \<Rightarrow> state \<Rightarrow> (thrown + BraveDescription) \<times> state" where
  "fetchPoiDescriptions h ids s =
     (let s0 = s\<lparr>calls := calls s @ [PoiDescriptions ids]\<rparr>
      in if length ids = 0 then (Inr \<lparr>descriptions = []\<rparr>, s0)
         else callBraveApi h (desc_reply h) (ids_url ''/res/v1/local/descriptions'' ids) s0)"

section \<open>The orchestration layer\<close>

definition newline :: string where
  "newline = [CHR 0x0A]"

definition formatWebResults :: "BraveWeb \<Rightarrow> string" where
  "formatWebResults data =
     (let results = map (\<lambda>r. (or_else (title r) ''N/A'',
                                or_else (description r) ''N/A'',
                                or_else (result_url r) ''N/A''))
                        (case web_results data of None \<Rightarrow> [] | Some rs \<Rightarrow> rs)
      in if length results = 0 then ''No web results found.''
         else join (newline @ newline)
                (map (\<lambda>(t, d, u). ''Title: '' @ t @ newline @ ''Description: '' @ d @ newline @ ''URL: '' @ u)
                     results))"

definition address_field :: "BraveLocation \<Rightarrow> (address \<Rightarrow> string option) \<Rightarrow> string option" where
  "address_field poi f = (case poi_address poi of None \<Rightarrow> None | Some a \<Rightarrow> f a)"

definition rating_field :: "BraveLocation \<Rightarrow> (rating \<Rightarrow> jsnum option) \<Rightarrow> jsnum option" where
  "rating_field poi f = (case poi_rating poi of None \<Rightarrow> None | Some r \<Rightarrow> f r)"

text \<open>One POI of \<^verbatim>\<open>formatLocalResults\<close>. The description is looked up among the own
  properties of \<^verbatim>\<open>descriptions\<close>; an id that names a property every object inherits
  (\<^verbatim>\<open>constructor\<close>, say) is not covered.\<close>

definition formatPoi :: "BraveDescription \<Rightarrow> BraveLocation \<Rightarrow> string" where
  "formatPoi descData poi =
     (let address = or_else (Some (join '', '' (filter_Boolean
                       [address_field poi streetAddress, address_field poi addressLocality,
                        address_field poi addressRegion, address_field poi postalCode]))) ''N/A''
      in ''Name: '' @ or_else (poi_name poi) ''N/A'' @ newline @
         ''Address: '' @ address @ newline @
         ''Phone: '' @ or_else (phone poi) ''N/A'' @ newline @
         ''Rating: '' @ (case rating_field poi ratingValue of None \<Rightarrow> ''N/A'' | Some v \<Rightarrow> toString v) @
         '' ('' @ (case rating_field poi ratingCount of None \<Rightarrow> ''0'' | Some n \<Rightarrow> toString n) @
         '' reviews)'' @ newline @
         ''Price Range: '' @ or_else (priceRange poi) ''N/A'' @ newline @
         ''Hours: '' @ or_else (Some (join '', '' (case openingHours poi of None \<Rightarrow> [] | Some hs \<Rightarrow> hs))) ''N/A'' @
         newline @
         ''Description: '' @ or_else (map_of (descriptions descData) (poi_id poi)) ''No description available.'' @
         newline)"

definition formatLocalResults :: "BravePoiResponse \<Rightarrow> BraveDescription \<Rightarrow> string" where
  "formatLocalResults poisData descData =
     (let results = poi_results poisData
      in if length results = 0 then ''No local results found.''
         else join (newline @ ''---'' @ newline) (map (formatPoi descData) results))"

text \<open>A parameter with a default value takes it when the argument is \<^verbatim>\<open>undefined\<close>.\<close>

fun with_default :: "jsnum option \<Rightarrow> int \<Rightarrow> jsnum" where
  "with_default None d = Fin d"
| "with_default (Some n) d = n"

definition performWebSearch ::
  "host \<Rightarrow> string \<Rightarrow> jsnum option \<Rightarrow> jsnum option \<Rightarrow> state \<Rightarrow> (thrown + string) \<times> state" where
  "performWebSearch h query count offset s =
     (case fetchWebSearch h query (Some (with_default count 10)) (Some (with_default offset 0)) s of
        (Inl e, s1) \<Rightarrow> (Inl e, s1)
      | (Inr data, s1) \<Rightarrow> (Inr (formatWebResults data), s1))"

text \<open>\<^verbatim>\<open>webData.locations?.results?.map(r => r.id).filter(id => id != null) || []\<close>\<close>

definition locationIds :: "BraveWeb \<Rightarrow> string list" where
  "locationIds webData =
     (case location_results webData of
        None \<Rightarrow> []
      | Some rs \<Rightarrow> concat (map (\<lambda>r. case location_id r of None \<Rightarrow> [] | Some i \<Rightarrow> [i]) rs))"

definition performLocalSearch ::
  "host \<Rightarrow> string \<Rightarrow> jsnum option \<Rightarrow> state \<Rightarrow> (thrown + string) \<times> state" where
  "performLocalSearch h query count0 s =
     (let count = with_default count0 5
      in case fetchInitialLocalSearch h query count s of
           (Inl e, s1) \<Rightarrow> (Inl e, s1)
         | (Inr webData, s1) \<Rightarrow>
             let ids = locationIds webData
             in if length ids = 0 then performWebSearch h query (Some count) None s1
                else
                  (case fetchPoiDetails h (map Some ids) s1 of
                     (Inl e, s2) \<Rightarrow> performWebSearch h query (Some count) None s2
                   | (Inr poisData, s2) \<Rightarrow>
                       (case fetchPoiDescriptions h (map Some ids) s2 of
                          (Inl e, s3) \<Rightarrow> performWebSearch h query (Some count) None s3
                        | (Inr descriptionsData, s3) \<Rightarrow>
                            (Inr (formatLocalResults poisData descriptionsData), s3))))"

definition performPoiDetails :: "host \<Rightarrow> string list \<Rightarrow> state \<Rightarrow> (thrown + string) \<times> state" where
  "performPoiDetails h ids s =
     (if length ids = 0 then (Inr ''No IDs provided to fetch details.'', s)
      else case fetchPoiDetails h (map Some ids) s of
             (Inl e, s1) \<Rightarrow> (Inl e, s1)
           | (Inr poisData, s1) \<Rightarrow> (Inr (formatLocalResults poisData \<lparr>descriptions = []\<rparr>), s1))"

definition performPoiDescriptions :: "host \<Rightarrow> string list \<Rightarrow> state \<Rightarrow> (thrown + string) \<times> state" where
  "performPoiDescriptions h ids s =
     (if length ids = 0 then (Inr ''No IDs provided to fetch descriptions.'', s)
      else case fetchPoiDescriptions h (map Some ids) s of
             (Inl e, s1) \<Rightarrow> (Inl e, s1)
           | (Inr descriptionsData, s1) \<Rightarrow>
               if length (descriptions descriptionsData) = 0
               then (Inr ''No descriptions found for the provided IDs.'', s1)
               else (Inr (join (newline @ newline)
                            (map (\<lambda>(i, d). ''ID: '' @ i @ newline @ ''Description: '' @ d)
                                 (descriptions descriptionsData))), s1))"

section \<open>Tool arguments\<close>

text \<open>The untyped \<^verbatim>\<open>arguments\<close> of a request: a JSON value, or \<^verbatim>\<open>undefined\<close>.\<close>

datatype jsval =
  JUndefined | JNull | JBool bool | JNum jsnum | JStr string
| JArr "jsval list" | JObj "(string \<times> jsval) list"

fun typeof :: "jsval \<Rightarrow> string" where
  "typeof JUndefined = ''undefined''"
| "typeof JNull = ''object''"
| "typeof (JBool _) = ''boolean''"
| "typeof (JNum _) = ''number''"
| "typeof (JStr _) = ''string''"
| "typeof (JArr _) = ''object''"
| "typeof (JObj _) = ''object''"

text \<open>
  \<^verbatim>\<open>k in v\<close> and \<^verbatim>\<open>v.k\<close> on an object, for the keys the guards ask for (\<^verbatim>\<open>query\<close>,
  \<^verbatim>\<open>count\<close>, \<^verbatim>\<open>offset\<close>, \<^verbatim>\<open>ids\<close>), none of which an array or a prototype has.
\<close>

fun has_key :: "string \<Rightarrow> jsval \<Rightarrow> bool" where
  "has_key k (JObj kvs) = (k \<in> set (map fst kvs))"
| "has_key k _ = False"

fun get_prop :: "string \<Rightarrow> jsval \<Rightarrow> jsval" where
  "get_prop k (JObj kvs) = (case map_of kvs k of None \<Rightarrow> JUndefined | Some v \<Rightarrow> v)"
| "get_prop k _ = JUndefined"

fun isArray :: "jsval \<Rightarrow> bool" where
  "isArray (JArr _) = True"
| "isArray _ = False"

fun elements :: "jsval \<Rightarrow> jsval list" where
  "elements (JArr xs) = xs"
| "elements _ = []"

definition isBraveWebSearchArgs :: "jsval \<Rightarrow> bool" where
  "isBraveWebSearchArgs args =
     (typeof args = ''object'' \<and> args \<noteq> JNull \<and> has_key ''query'' args \<and>
      typeof (get_prop ''query'' args) = ''string'' \<and>
      (get_prop ''count'' args = JUndefined \<or> typeof (get_prop ''count'' args) = ''number'') \<and>
      (get_prop ''offset'' args = JUndefined \<or> typeof (get_prop ''offset'' args) = ''number''))"

definition isBraveLocalSearchArgs :: "jsval \<Rightarrow> bool" where
  "isBraveLocalSearchArgs args =
     (typeof args = ''object'' \<and> args \<noteq> JNull \<and> has_key ''query'' args \<and>
      typeof (get_prop ''query'' args) = ''string'' \<and>
      (get_prop ''count'' args = JUndefined \<or> typeof (get_prop ''count'' args) = ''number''))"

definition isBravePoiDetailsArgs :: "jsval \<Rightarrow> bool" where
  "isBravePoiDetailsArgs args =
     (typeof args = ''object'' \<and> args \<noteq> JNull \<and> has_key ''ids'' args \<and>
      isArray (get_prop ''ids'' args) \<and>
      list_all (\<lambda>i. typeof i = ''string'') (elements (get_prop ''ids'' args)))"

definition isBravePoiDescriptionsArgs :: "jsval \<Rightarrow> bool" where
  "isBravePoiDescriptionsArgs args =
     (typeof args = ''object'' \<and> args \<noteq> JNull \<and> has_key ''ids'' args \<and>
      isArray (get_prop ''ids'' args) \<and>
      list_all (\<lambda>i. typeof i = ''string'') (elements (get_prop ''ids'' args)))"

text \<open>Reading a field of arguments that passed their guard.\<close>

fun the_string :: "jsval \<Rightarrow> string" where
  "the_string (JStr s) = s"
| "the_string _ = []"

fun the_number :: "jsval \<Rightarrow> jsnum option" where
  "the_number (JNum n) = Some n"
| "the_number _ = None"

section \<open>The dispatch handler\<close>

record CallToolRequest =
  name :: string
  arguments :: jsval

record content_item =
  type :: string
  text_of :: string

record CallToolResult =
  content :: "content_item list"
  isError :: bool

definition invalid_arguments :: "string \<Rightarrow> string \<Rightarrow> thrown" where
  \<open>invalid_arguments tool expected =
     Generic (ErrorObject (''Invalid arguments for tool "'' @ tool @ ''". Expected: '' @ expected))\<close>

text \<open>The \<^verbatim>\<open>try\<close> block of \<^verbatim>\<open>callToolHandler\<close>: the formatted results, or what was thrown.\<close>

definition dispatch :: "host \<Rightarrow> CallToolRequest \<Rightarrow> state \<Rightarrow> (thrown + string) \<times> state" where
  "dispatch h req s =
     (let args = arguments req
      in if name req = ''brave_web_search'' then
           (if \<not> isBraveWebSearchArgs args
            then (Inl (invalid_arguments (name req) ''{ query: string, count?: number, offset?: number }''), s)
            else performWebSearch h (the_string (get_prop ''query'' args))
                   (Some (with_default (the_number (get_prop ''count'' args)) 10))
                   (Some (with_default (the_number (get_prop ''offset'' args)) 0)) s)
         else if name req = ''brave_local_search'' then
           (if \<not> isBraveLocalSearchArgs args
            then (Inl (invalid_arguments (name req) ''{ query: string, count?: number }''), s)
            else performLocalSearch h (the_string (get_prop ''query'' args))
                   (Some (with_default (the_number (get_prop ''count'' args)) 5)) s)
         else if name req = ''brave_poi_details'' then
           (if \<not> isBravePoiDetailsArgs args
            then (Inl (invalid_arguments (name req) ''{ ids: string[] }''), s)
            else performPoiDetails h (map the_string (elements (get_prop ''ids'' args))) s)
         else if name req = ''brave_poi_descriptions'' then
           (if \<not> isBravePoiDescriptionsArgs args
            then (Inl (invalid_arguments (name req) ''{ ids: string[] }''), s)
            else performPoiDescriptions h (map the_string (elements (get_prop ''ids'' args))) s)
         else (Inl (Generic (ErrorObject (''Unknown tool requested: '' @ name req))), s))"

text \<open>The message the \<^verbatim>\<open>catch\<close> block builds from what was thrown.\<close>

fun errorMessage :: "thrown \<Rightarrow> string" where
  "errorMessage (ApiError e) =
     ''Brave API Error ('' @ (case status e of None \<Rightarrow> ''N/A'' | Some n \<Rightarrow> toString n) @ ''): '' @
     message e @
     (case details e of None \<Rightarrow> [] | Some d \<Rightarrow> if d = [] then [] else '' - '' @ d)"
| "errorMessage (Generic c) = ''Internal Server Error: '' @ describe c"

definition callToolHandler :: "host \<Rightarrow> CallToolRequest \<Rightarrow> state \<Rightarrow> CallToolResult \<times> state" where
  "callToolHandler h req s =
     (case dispatch h req s of
        (Inr results, s1) \<Rightarrow>
          (\<lparr>content = [\<lparr>type = ''text'', text_of = results\<rparr>], isError = False\<rparr>, s1)
      | (Inl error, s1) \<Rightarrow>
          (\<lparr>content = [\<lparr>type = ''text'', text_of = errorMessage error\<rparr>], isError = True\<rparr>, s1))"

section \<open>Example hosts\<close>

text \<open>Concrete hosts and states on which the theorems below are exercised.\<close>

definition empty_state :: state where
  "empty_state = \<lparr>endpointTrackers = Map.empty, ticks = 0, sent = [], calls = []\<rparr>"

definition respond_ok :: "'a \<Rightarrow> 'a fetch_outcome" where
  "respond_ok d =
     Responds \<lparr>http_status = 200, statusText = ''OK'', body_text = Inr [], body_json = Inr d\<rparr>"

definition respond_error :: "int \<Rightarrow> string \<Rightarrow> string \<Rightarrow> 'a fetch_outcome" where
  "respond_error st stt body =
     Responds \<lparr>http_status = st, statusText = stt, body_text = Inr body,
               body_json = Inl (ErrorObject ''Unexpected token'')\<rparr>"

text \<open>A host whose remote API gives the same three replies to every request.\<close>

definition constant_host ::
  "string option \<Rightarrow> (nat \<Rightarrow> int) \<Rightarrow> BraveWeb fetch_outcome \<Rightarrow> BravePoiResponse fetch_outcome \<Rightarrow>
   BraveDescription fetch_outcome \<Rightarrow> host" where
  "constant_host env clk web poi desc =
     \<lparr>NODE_ENV = env, BRAVE_API_KEY = ''key'', clock = clk,
      web_reply = (\<lambda>n u. web), poi_reply = (\<lambda>n u. poi), desc_reply = (\<lambda>n u. desc)\<rparr>"

definition no_locations :: BraveWeb where
  "no_locations =
     \<lparr>web_results = Some [\<lparr>title = Some ''Fallback Web'', description = Some ''desc'',
                            result_url = Some ''url''\<rparr>],
      location_results = Some []\<rparr>"

definition one_location :: BraveWeb where
  "one_location =
     \<lparr>web_results = None,
      location_results = Some [\<lparr>location_id = Some ''poi1'', location_title = None\<rparr>]\<rparr>"

definition one_poi :: BravePoiResponse where
  "one_poi =
     \<lparr>poi_results = [\<lparr>poi_id = ''poi1'', poi_name = Some ''POI'', poi_address = None, phone = None,
                       poi_rating = None, openingHours = None, priceRange = None\<rparr>]\<rparr>"

text \<open>A state in which \<^verbatim>\<open>web/search\<close> was last called at time 10000.\<close>

definition called_state :: state where
  "called_state =
     \<lparr>endpointTrackers = [''web/search'' \<mapsto> \<lparr>lastCallTime = 10000, callCount = 1\<rparr>],
      ticks = 0, sent = [], calls = []\<rparr>"

definition offline :: "'a fetch_outcome" where
  "offline = FetchRejects (ErrorObject ''Network connection failed'')"

definition frozen_clock :: "int \<Rightarrow> nat \<Rightarrow> int" where
  "frozen_clock t n = t"

definition test_host :: host where
  "test_host = constant_host (Some ''test'') (frozen_clock 10500) offline offline offline"

definition production_host :: "int \<Rightarrow> host" where
  "production_host t = constant_host None (frozen_clock t) offline offline offline"

text \<open>Test hosts whose location search finds nothing, or whose enrichment calls fail.\<close>

definition fallback_host :: host where
  "fallback_host =
     constant_host (Some ''test'') (frozen_clock 10500) (respond_ok no_locations) offline offline"

definition details_down_host :: host where
  "details_down_host =
     constant_host (Some ''test'') (frozen_clock 10500) (respond_ok one_location)
       (respond_error 500 ''Internal Server Error'' ''Internal Server Error on Brave API'') offline"

definition descriptions_down_host :: host where
  "descriptions_down_host =
     constant_host (Some ''test'') (frozen_clock 10500) (respond_ok one_location)
       (respond_ok one_poi) offline"

text \<open>A test host whose location search finds one place of which the POI endpoints know
  nothing.\<close>

definition empty_pois_host :: host where
  "empty_pois_host =
     constant_host (Some ''test'') (frozen_clock 10500) (respond_ok one_location)
       (respond_ok \<lparr>poi_results = []\<rparr>) (respond_ok \<lparr>descriptions = []\<rparr>)"

text \<open>Production hosts on which the whole call happens at time 10000.\<close>

definition busy_host :: host where
  "busy_host = constant_host None (frozen_clock 10000) (respond_ok no_locations) offline offline"

definition unauthorized_host :: host where
  "unauthorized_host =
     constant_host None (frozen_clock 10000) (respond_error 401 ''Unauthorized'' ''Bad Key'')
       offline offline"

definition unauthorized :: "BraveWeb response" where
  "unauthorized =
     \<lparr>http_status = 401, statusText = ''Unauthorized'', body_text = Inr ''Bad Key'',
      body_json = Inl (ErrorObject ''Unexpected token'')\<rparr>"

section \<open>The rate limiter's verdict\<close>

lemma test_host_skips:
  "rateLimitSkipped test_host (fetchWebSearch_url ''test'' None None)"
  by (simp add: rateLimitSkipped_def test_host_def constant_host_def fetchWebSearch_url_def
        new_URL_def set_param_def sp_get_def)

lemma production_host_checks: "\<not> rateLimitSkipped (production_host t) u"
  by (simp add: rateLimitSkipped_def production_host_def constant_host_def)

text \<open>
  C1 (as amended). Under \<^verbatim>\<open>NODE_ENV === "test"\<close> with a \<^verbatim>\<open>q\<close> parameter that does not
  contain \<^verbatim>\<open>req\<close>, \<open>checkRateLimit\<close> permits the call and leaves the state as it is.
  In every other case, for every endpoint identifier, it fails with the rate-limit error
  exactly when the clock's reading minus the tracker's stored \<open>lastCallTime\<close> (0 for an
  endpoint seen for the first time) is less than 1000; otherwise it permits the call,
  stores the next reading of the clock as \<open>lastCallTime\<close> and increments \<open>callCount\<close>.
\<close>

theorem checkRateLimit_verdict:
  "(rateLimitSkipped h u \<longrightarrow> checkRateLimit h endpoint u s = (Inr (), s)) \<and>
   (\<not> rateLimitSkipped h u \<longrightarrow>
      (fst (checkRateLimit h endpoint u s) = Inl rateLimitExceeded \<longleftrightarrow>
         clock h (ticks s) - lastCallTime (tracker_of s endpoint) < 1000) \<and>
      (\<not> clock h (ticks s) - lastCallTime (tracker_of s endpoint) < 1000 \<longrightarrow>
         fst (checkRateLimit h endpoint u s) = Inr () \<and>
         endpointTrackers (snd (checkRateLimit h endpoint u s)) endpoint =
           Some \<lparr>lastCallTime = clock h (Suc (ticks s)),
                 callCount = callCount (tracker_of s endpoint) + 1\<rparr>))"
  by (auto simp: checkRateLimit_def Date_now_def Let_def rateLimitExceeded_def)

text \<open>
  The theorem at work: 500 ms after the last call the production host refuses, 1500 ms
  after it the call passes and is recorded, and the test host lets the early call through.
\<close>

theorem checkRateLimit_verdict_witness:
  "fst (checkRateLimit (production_host 10500) ''web/search''
          (fetchWebSearch_url ''req2'' None None) called_state) = Inl rateLimitExceeded \<and>
   fst (checkRateLimit (production_host 11500) ''web/search''
          (fetchWebSearch_url ''req3'' None None) called_state) = Inr () \<and>
   endpointTrackers (snd (checkRateLimit (production_host 11500) ''web/search''
          (fetchWebSearch_url ''req3'' None None) called_state)) ''web/search'' =
     Some \<lparr>lastCallTime = 11500, callCount = 2\<rparr> \<and>
   checkRateLimit test_host ''web/search'' (fetchWebSearch_url ''test'' None None) called_state =
     (Inr (), called_state)"
  using checkRateLimit_verdict [of "production_host 10500" "fetchWebSearch_url ''req2'' None None"
          "''web/search''" called_state]
        checkRateLimit_verdict [of "production_host 11500" "fetchWebSearch_url ''req3'' None None"
          "''web/search''" called_state]
        checkRateLimit_verdict [of test_host "fetchWebSearch_url ''test'' None None"
          "''web/search''" called_state]
        test_host_skips production_host_checks
  by (simp add: production_host_def constant_host_def frozen_clock_def called_state_def
        tracker_of_def)

text \<open>
  C1 as the specification words it fails on the test host: 500 ms after the last call to
  \<^verbatim>\<open>web/search\<close>, a query without \<^verbatim>\<open>req\<close> is not refused.
\<close>

theorem checkRateLimit_test_bypass_counterexample:
  "clock test_host (ticks called_state) - lastCallTime (tracker_of called_state ''web/search'') < 1000 \<and>
   fst (checkRateLimit test_host ''web/search'' (fetchWebSearch_url ''test'' None None) called_state)
     \<noteq> Inl rateLimitExceeded"
  by (simp add: checkRateLimit_def test_host_skips)
     (simp add: test_host_def constant_host_def frozen_clock_def called_state_def tracker_of_def)

section \<open>Search parameters\<close>

lemma map_of_sp_set: "map_of (sp_set k v ps) k' = (if k' = k then Some v else map_of ps k')"
proof (induction ps)
  case Nil
  show ?case by simp
next
  case (Cons p ps)
  have others: "k' \<noteq> k \<Longrightarrow> map_of (filter (\<lambda>q. fst q \<noteq> k) qs) k' = map_of qs k'"
    for qs :: "(string \<times> string) list"
    by (induction qs) auto
  show ?case
    using Cons others [of ps] by (cases p) auto
qed

lemma keys_sp_set: "fst ` set (sp_set k v ps) = insert k (fst ` set ps)"
  by (induction ps) (auto simp: image_iff)

lemma sp_get_set_param:
  "sp_get k' (searchParams (set_param k v u)) =
     (if k' = k then Some v else sp_get k' (searchParams u))"
  by (simp add: sp_get_def set_param_def map_of_sp_set)

lemma sp_has_set_param:
  "sp_has k' (searchParams (set_param k v u)) = (k' = k \<or> sp_has k' (searchParams u))"
  by (auto simp: sp_has_def set_param_def keys_sp_set)

lemma pathname_set_param: "pathname (set_param k v u) = pathname u"
  by (simp add: set_param_def)

lemma new_URL_no_params:
  "sp_get k (searchParams (new_URL p)) = None" "\<not> sp_has k (searchParams (new_URL p))"
  by (simp_all add: sp_get_def sp_has_def new_URL_def)

lemma Math_min_20: "\<not> isNaN n \<Longrightarrow> js_le (Math_min n (Fin 20)) (Fin 20)"
  by (cases n) auto

lemma clamp_offset:
  "\<not> isNaN n \<Longrightarrow>
   js_le (Fin 0) (Math_max (Fin 0) (Math_min n (Fin 9))) \<and>
   js_le (Math_max (Fin 0) (Math_min n (Fin 9))) (Fin 9)"
  by (cases n) auto

lemma sp_get_q_fetchWebSearch_url:
  "sp_get ''q'' (searchParams (fetchWebSearch_url q c o1)) = Some q"
  by (cases c; cases o1)
     (simp_all add: fetchWebSearch_url_def Let_def sp_get_set_param new_URL_no_params)

section \<open>What the client does to the state\<close>

lemma checkRateLimit_calls: "calls (snd (checkRateLimit h e u s)) = calls s"
  by (simp add: checkRateLimit_def Date_now_def Let_def)

lemma checkRateLimit_sent: "sent (snd (checkRateLimit h e u s)) = sent s"
  by (simp add: checkRateLimit_def Date_now_def Let_def)

lemma checkRateLimit_ticks: "ticks s \<le> ticks (snd (checkRateLimit h e u s))"
  by (simp add: checkRateLimit_def Date_now_def Let_def)

lemma checkRateLimit_frame:
  "e' \<noteq> e \<Longrightarrow> endpointTrackers (snd (checkRateLimit h e u s)) e' = endpointTrackers s e'"
  by (simp add: checkRateLimit_def Date_now_def Let_def)

lemma callBraveApi_calls: "calls (snd (callBraveApi h r u s)) = calls s"
  using checkRateLimit_calls [of h "getEndpointFromUrl u" u s]
  by (auto simp: callBraveApi_def Let_def split: prod.splits sum.splits)

lemma callBraveApi_sent:
  "sent (snd (callBraveApi h r u s)) = sent s \<or>
   sent (snd (callBraveApi h r u s)) = sent s @ [request_of h u]"
  using checkRateLimit_sent [of h "getEndpointFromUrl u" u s]
  by (auto simp: callBraveApi_def Let_def split: prod.splits sum.splits)

lemma callBraveApi_ticks: "ticks s \<le> ticks (snd (callBraveApi h r u s))"
  using checkRateLimit_ticks [of s h "getEndpointFromUrl u" u]
  by (auto simp: callBraveApi_def Let_def split: prod.splits sum.splits)

lemma callBraveApi_frame:
  "e' \<noteq> getEndpointFromUrl u \<Longrightarrow>
   endpointTrackers (snd (callBraveApi h r u s)) e' = endpointTrackers s e'"
  using checkRateLimit_frame [of e' "getEndpointFromUrl u" h u s]
  by (auto simp: callBraveApi_def Let_def split: prod.splits sum.splits)

lemmas example_defs =
  fetchInitialLocalSearch_def fetchWebSearch_def fetchPoiDetails_def fetchPoiDescriptions_def
  callBraveApi_def checkRateLimit_def rateLimitSkipped_def attempt_def rethrow_def
  fetchInitialLocalSearch_url_def fetchWebSearch_url_def ids_url_def new_URL_def set_param_def
  append_param_def sp_append_def sp_get_def sp_has_def getEndpointFromUrl_def constant_host_def
  respond_ok_def respond_error_def offline_def ok_def frozen_clock_def empty_state_def
  Date_now_def tracker_of_def request_of_def Let_def int_toString_def nat_toString.simps
  digit_char_def

section \<open>The URL of a web search\<close>

text \<open>
  C6 (as amended). The URL \<open>fetchWebSearch\<close> builds and hands to \<open>callBraveApi\<close> sets
  \<^verbatim>\<open>q\<close> to the query and \<^verbatim>\<open>result_filter\<close> to \<^verbatim>\<open>web\<close>. It has a \<^verbatim>\<open>count\<close> parameter
  exactly when a number other than NaN is supplied (the infinities included), with the
  value \<^verbatim>\<open>Math.min(count, 20)\<close>, at most 20 and with no lower clamp; it has an
  \<^verbatim>\<open>offset\<close> parameter exactly when a number other than NaN is supplied, with the value
  clamped to the range from 0 to 9. A count or offset that is not a number is left out.
\<close>

theorem fetchWebSearch_url_params:
  "sp_get ''q'' (searchParams (fetchWebSearch_url query count offset)) = Some query \<and>
   sp_get ''result_filter'' (searchParams (fetchWebSearch_url query count offset)) = Some ''web'' \<and>
   (sp_has ''count'' (searchParams (fetchWebSearch_url query count offset)) \<longleftrightarrow>
      (\<exists>n. count = Some n \<and> \<not> isNaN n)) \<and>
   (\<forall>n. count = Some n \<and> \<not> isNaN n \<longrightarrow>
      sp_get ''count'' (searchParams (fetchWebSearch_url query count offset)) =
        Some (toString (Math_min n (Fin 20))) \<and>
      js_le (Math_min n (Fin 20)) (Fin 20)) \<and>
   (sp_has ''offset'' (searchParams (fetchWebSearch_url query count offset)) \<longleftrightarrow>
      (\<exists>n. offset = Some n \<and> \<not> isNaN n)) \<and>
   (\<forall>n. offset = Some n \<and> \<not> isNaN n \<longrightarrow>
      sp_get ''offset'' (searchParams (fetchWebSearch_url query count offset)) =
        Some (toString (Math_max (Fin 0) (Math_min n (Fin 9)))) \<and>
      js_le (Fin 0) (Math_max (Fin 0) (Math_min n (Fin 9))) \<and>
      js_le (Math_max (Fin 0) (Math_min n (Fin 9))) (Fin 9)) \<and>
   (sent (snd (fetchWebSearch h query count offset s)) = sent s \<or>
    sent (snd (fetchWebSearch h query count offset s)) =
      sent s @ [request_of h (fetchWebSearch_url query count offset)])"
proof -
  have params: "sp_get ''q'' (searchParams (fetchWebSearch_url query count offset)) = Some query \<and>
   sp_get ''result_filter'' (searchParams (fetchWebSearch_url query count offset)) = Some ''web'' \<and>
   (sp_has ''count'' (searchParams (fetchWebSearch_url query count offset)) \<longleftrightarrow>
      (\<exists>n. count = Some n \<and> \<not> isNaN n)) \<and>
   (\<forall>n. count = Some n \<and> \<not> isNaN n \<longrightarrow>
      sp_get ''count'' (searchParams (fetchWebSearch_url query count offset)) =
        Some (toString (Math_min n (Fin 20))) \<and>
      js_le (Math_min n (Fin 20)) (Fin 20)) \<and>
   (sp_has ''offset'' (searchParams (fetchWebSearch_url query count offset)) \<longleftrightarrow>
      (\<exists>n. offset = Some n \<and> \<not> isNaN n)) \<and>
   (\<forall>n. offset = Some n \<and> \<not> isNaN n \<longrightarrow>
      sp_get ''offset'' (searchParams (fetchWebSearch_url query count offset)) =
        Some (toString (Math_max (Fin 0) (Math_min n (Fin 9)))) \<and>
      js_le (Fin 0) (Math_max (Fin 0) (Math_min n (Fin 9))) \<and>
      js_le (Math_max (Fin 0) (Math_min n (Fin 9))) (Fin 9))"
    by (cases count; cases offset)
       (simp_all add: fetchWebSearch_url_def Let_def sp_get_set_param sp_has_set_param
          new_URL_no_params Math_min_20 clamp_offset)
  have request: "sent (snd (fetchWebSearch h query count offset s)) = sent s \<or>
    sent (snd (fetchWebSearch h query count offset s)) =
      sent s @ [request_of h (fetchWebSearch_url query count offset)]"
    using callBraveApi_sent [of h "web_reply h" "fetchWebSearch_url query count offset"
            "s\<lparr>calls := calls s @ [WebSearch query count offset]\<rparr>"]
    by (simp add: fetchWebSearch_def)
  from params request show ?thesis by blast
qed

text \<open>A count of 50 is sent as 20, an offset of -5 as 0 and one of 20 as 9; an undefined
  count is left out.\<close>

theorem fetchWebSearch_url_params_witness:
  "sp_get ''count'' (searchParams (fetchWebSearch_url ''test'' (Some (Fin 50)) (Some (Fin (- 5))))) =
     Some ''20'' \<and>
   sp_get ''offset'' (searchParams (fetchWebSearch_url ''test'' (Some (Fin 50)) (Some (Fin (- 5))))) =
     Some ''0'' \<and>
   sp_get ''offset'' (searchParams (fetchWebSearch_url ''test'' None (Some (Fin 20)))) = Some ''9'' \<and>
   \<not> sp_has ''count'' (searchParams (fetchWebSearch_url ''test'' None (Some (Fin 20))))"
  using fetchWebSearch_url_params [of "''test''" "Some (Fin 50)" "Some (Fin (- 5))" test_host empty_state]
        fetchWebSearch_url_params [of "''test''" None "Some (Fin 20)" test_host empty_state]
  by (simp add: int_toString_def nat_toString.simps digit_char_def)

text \<open>
  C6 as the specification words it asks for a finite number. \<^verbatim>\<open>Infinity\<close> is a number
  and not NaN, so the URL gets a \<^verbatim>\<open>count\<close> parameter for it (of value 20).
\<close>

theorem fetchWebSearch_url_infinite_count_counterexample:
  "sp_has ''count'' (searchParams (fetchWebSearch_url ''test'' (Some PosInf) None)) \<and>
   sp_get ''count'' (searchParams (fetchWebSearch_url ''test'' (Some PosInf) None)) = Some ''20'' \<and>
   \<not> isFinite PosInf"
  by (simp add: fetchWebSearch_url_def new_URL_def set_param_def sp_get_def sp_has_def
        int_toString_def nat_toString.simps digit_char_def)

section \<open>The POI requests\<close>

lemma foldl_append_param:
  "foldl (\<lambda>u i. append_param ''ids'' i u) u0 xs =
     u0\<lparr>searchParams := searchParams u0 @ map (\<lambda>i. (''ids'', i)) xs\<rparr>"
  by (induction xs arbitrary: u0) (simp_all add: append_param_def sp_append_def)

lemma ids_url_eq:
  "ids_url path ids =
     \<lparr>pathname = path, searchParams = map (\<lambda>i. (''ids'', i)) (filter_Boolean ids)\<rparr>"
  by (simp add: ids_url_def foldl_append_param new_URL_def)

lemma map_Some_filter_Boolean:
  "map Some (filter_Boolean ids) = filter (\<lambda>i. i \<noteq> None \<and> i \<noteq> Some []) ids"
  by (induction ids rule: filter_Boolean.induct) auto

text \<open>
  C7. On the empty list \<open>fetchPoiDetails\<close> returns \<^verbatim>\<open>{results: []}\<close> and
  \<open>fetchPoiDescriptions\<close> returns \<^verbatim>\<open>{descriptions: {}}\<close>; nothing is handed to
  \<^verbatim>\<open>fetch\<close>, and neither the trackers nor the clock are touched. On a non-empty list the
  call goes to \<open>callBraveApi\<close> with a URL whose parameters are one \<^verbatim>\<open>ids\<close> pair for each
  id that is left, in order, once the falsy ones (\<^verbatim>\<open>null\<close>, \<^verbatim>\<open>undefined\<close>, the empty
  string) are removed.
\<close>

theorem fetchPoi_empty_and_ids:
  "fetchPoiDetails h [] s = (Inr \<lparr>poi_results = []\<rparr>, s\<lparr>calls := calls s @ [PoiDetails []]\<rparr>) \<and>
   fetchPoiDescriptions h [] s =
     (Inr \<lparr>descriptions = []\<rparr>, s\<lparr>calls := calls s @ [PoiDescriptions []]\<rparr>) \<and>
   sent (snd (fetchPoiDetails h [] s)) = sent s \<and>
   sent (snd (fetchPoiDescriptions h [] s)) = sent s \<and>
   endpointTrackers (snd (fetchPoiDetails h [] s)) = endpointTrackers s \<and>
   endpointTrackers (snd (fetchPoiDescriptions h [] s)) = endpointTrackers s \<and>
   ticks (snd (fetchPoiDetails h [] s)) = ticks s \<and>
   ticks (snd (fetchPoiDescriptions h [] s)) = ticks s \<and>
   (ids \<noteq> [] \<longrightarrow>
      fetchPoiDetails h ids s =
        callBraveApi h (poi_reply h)
          \<lparr>pathname = ''/res/v1/local/pois'',
           searchParams = map (\<lambda>i. (''ids'', i)) (filter_Boolean ids)\<rparr>
          (s\<lparr>calls := calls s @ [PoiDetails ids]\<rparr>) \<and>
      fetchPoiDescriptions h ids s =
        callBraveApi h (desc_reply h)
          \<lparr>pathname = ''/res/v1/local/descriptions'',
           searchParams = map (\<lambda>i. (''ids'', i)) (filter_Boolean ids)\<rparr>
          (s\<lparr>calls := calls s @ [PoiDescriptions ids]\<rparr>) \<and>
      map Some (filter_Boolean ids) = filter (\<lambda>i. i \<noteq> None \<and> i \<noteq> Some []) ids)"
  by (simp add: fetchPoiDetails_def fetchPoiDescriptions_def ids_url_eq map_Some_filter_Boolean)

text \<open>The ids \<^verbatim>\<open>['poi1', null, 'poi3', undefined]\<close> are requested as
  \<^verbatim>\<open>ids=poi1&ids=poi3\<close>.\<close>

theorem fetchPoi_empty_and_ids_witness:
  "[Some ''poi1'', None, Some ''poi3'', None] \<noteq> [] \<and>
   fetchPoiDetails test_host [Some ''poi1'', None, Some ''poi3'', None] empty_state =
     callBraveApi test_host (poi_reply test_host)
       \<lparr>pathname = ''/res/v1/local/pois'', searchParams = [(''ids'', ''poi1''), (''ids'', ''poi3'')]\<rparr>
       (empty_state\<lparr>calls := calls empty_state @ [PoiDetails [Some ''poi1'', None, Some ''poi3'', None]]\<rparr>) \<and>
   sent (snd (fetchPoiDetails test_host [] empty_state)) = []"
  using fetchPoi_empty_and_ids [of test_host empty_state "[Some ''poi1'', None, Some ''poi3'', None]"]
  by (simp add: empty_state_def)

section \<open>Failures of an API call\<close>

text \<open>
  C9. When the rate limiter lets the call through: a response whose status is outside
  200..299 and whose body can be read makes \<open>callBraveApi\<close> fail with a \<^verbatim>\<open>BraveApiError\<close>
  that carries the status and, as details, the status text, a colon, the first 200
  characters of the body and an ellipsis; a rejected \<^verbatim>\<open>fetch\<close>, an unreadable error
  body and an unparsable success body make it fail with a \<^verbatim>\<open>BraveApiError\<close> without
  status and details whose message wraps the description of the cause.
\<close>

theorem callBraveApi_failures:
  assumes "fst (checkRateLimit h (getEndpointFromUrl u) u s) = Inr ()"
  shows "(reply (length (sent s)) u = Responds r \<and> \<not> ok r \<and> body_text r = Inr errorText \<longrightarrow>
            fst (callBraveApi h reply u s) =
              Inl (ApiError (BraveApiError ''API request failed'' (Some (Fin (http_status r)))
                     (Some (statusText r @ '': '' @ take 200 errorText @ ''...'')))) \<and>
            length (statusText r @ '': '' @ take 200 errorText @ ''...'')
              \<le> length (statusText r) + 205) \<and>
         (reply (length (sent s)) u = FetchRejects c \<or>
          reply (length (sent s)) u = Responds r \<and> \<not> ok r \<and> body_text r = Inl c \<or>
          reply (length (sent s)) u = Responds r \<and> ok r \<and> body_json r = Inl c \<longrightarrow>
            fst (callBraveApi h reply u s) =
              Inl (ApiError (BraveApiError (''Network error calling Brave API: '' @ describe c)
                     None None)))"
proof -
  obtain s1 where "checkRateLimit h (getEndpointFromUrl u) u s = (Inr (), s1)"
    using assms by (cases "checkRateLimit h (getEndpointFromUrl u) u s") simp
  moreover from this have "sent s1 = sent s"
    using checkRateLimit_sent [of h "getEndpointFromUrl u" u s] by simp
  ultimately show ?thesis
    by (auto simp: callBraveApi_def attempt_def rethrow_def)
qed

text \<open>A 401 with body \<^verbatim>\<open>Bad Key\<close>, and a connection that fails.\<close>

theorem callBraveApi_failures_witness:
  "fst (callBraveApi unauthorized_host (web_reply unauthorized_host)
          (fetchWebSearch_url ''test'' None None) empty_state) =
     Inl (ApiError (BraveApiError ''API request failed'' (Some (Fin 401))
            (Some ''Unauthorized: Bad Key...''))) \<and>
   fst (callBraveApi (production_host 10000) (web_reply (production_host 10000))
          (fetchWebSearch_url ''test'' None None) empty_state) =
     Inl (ApiError (BraveApiError ''Network error calling Brave API: Network connection failed''
            None None))"
proof -
  have a: "fst (checkRateLimit unauthorized_host
             (getEndpointFromUrl (fetchWebSearch_url ''test'' None None))
             (fetchWebSearch_url ''test'' None None) empty_state) = Inr ()"
    by (simp add: unauthorized_host_def example_defs)
  have b: "fst (checkRateLimit (production_host 10000)
             (getEndpointFromUrl (fetchWebSearch_url ''test'' None None))
             (fetchWebSearch_url ''test'' None None) empty_state) = Inr ()"
    by (simp add: production_host_def example_defs)
  show ?thesis
    using callBraveApi_failures [OF a, where reply = "web_reply unauthorized_host"
            and r = unauthorized and errorText = "''Bad Key''"]
          callBraveApi_failures [OF b, where reply = "web_reply (production_host 10000)"
            and c = "ErrorObject ''Network connection failed''"]
    by (simp add: unauthorized_host_def production_host_def unauthorized_def constant_host_def
          respond_error_def offline_def ok_def)
qed

section \<open>The dispatch handler's error texts\<close>

text \<open>
  C2. The handler has no check of its own for missing arguments. With \<^verbatim>\<open>arguments\<close>
  undefined the type guard of the tool fails, and the text of the response is the
  schema-mismatch message of that tool; the state is unchanged.
\<close>

theorem missing_arguments_text:
  \<open>callToolHandler h \<lparr>name = ''brave_web_search'', arguments = JUndefined\<rparr> s =
     (\<lparr>content = [\<lparr>type = ''text'',
                    text_of = ''Internal Server Error: Invalid arguments for tool "brave_web_search". Expected: { query: string, count?: number, offset?: number }''\<rparr>],
       isError = True\<rparr>, s)\<close>
  by (simp add: callToolHandler_def dispatch_def isBraveWebSearchArgs_def invalid_arguments_def)

text \<open>
  C8. Whatever the \<^verbatim>\<open>try\<close> block of the handler throws, the handler returns a response
  with \<open>isError\<close> set and one text item: for a \<^verbatim>\<open>BraveApiError\<close> the text
  \<^verbatim>\<open>Brave API Error (<status or N/A>): <message>\<close>, followed by \<^verbatim>\<open> - <details>\<close> when
  there are non-empty details, and for anything else \<^verbatim>\<open>Internal Server Error: <message>\<close>.
\<close>

theorem callToolHandler_classifies:
  assumes "fst (dispatch h req s) = Inl error"
  shows "callToolHandler h req s =
           (\<lparr>content = [\<lparr>type = ''text'', text_of = errorMessage error\<rparr>], isError = True\<rparr>,
            snd (dispatch h req s)) \<and>
         (\<forall>e. error = ApiError e \<longrightarrow>
            errorMessage error =
              ''Brave API Error ('' @ (case status e of None \<Rightarrow> ''N/A'' | Some n \<Rightarrow> toString n) @
              ''): '' @ message e @
              (case details e of None \<Rightarrow> [] | Some d \<Rightarrow> if d = [] then [] else '' - '' @ d)) \<and>
         (\<forall>c. error = Generic c \<longrightarrow> errorMessage error = ''Internal Server Error: '' @ describe c)"
  using assms by (cases "dispatch h req s") (simp add: callToolHandler_def)

text \<open>A 401 from the API during a web search, and an error that is not a
  \<^verbatim>\<open>BraveApiError\<close>.\<close>

theorem callToolHandler_classifies_witness:
  \<open>fst (callToolHandler unauthorized_host
          \<lparr>name = ''brave_web_search'', arguments = JObj [(''query'', JStr ''api error test'')]\<rparr>
          empty_state) =
     \<lparr>content = [\<lparr>type = ''text'',
                   text_of = ''Brave API Error (401): API request failed - Unauthorized: Bad Key...''\<rparr>],
      isError = True\<rparr> \<and>
   fst (callToolHandler test_host \<lparr>name = ''unknown_tool'', arguments = JNull\<rparr> empty_state) =
     \<lparr>content = [\<lparr>type = ''text'',
                   text_of = ''Internal Server Error: Unknown tool requested: unknown_tool''\<rparr>],
      isError = True\<rparr>\<close>
proof -
  have a: "fst (dispatch unauthorized_host
             \<lparr>name = ''brave_web_search'', arguments = JObj [(''query'', JStr ''api error test'')]\<rparr>
             empty_state) =
           Inl (ApiError (BraveApiError ''API request failed'' (Some (Fin 401))
                  (Some ''Unauthorized: Bad Key...'')))"
    by (simp add: dispatch_def isBraveWebSearchArgs_def performWebSearch_def
          unauthorized_host_def example_defs)
  have b: "fst (dispatch test_host \<lparr>name = ''unknown_tool'', arguments = JNull\<rparr> empty_state) =
           Inl (Generic (ErrorObject ''Unknown tool requested: unknown_tool''))"
    by (simp add: dispatch_def)
  show ?thesis
    using callToolHandler_classifies [OF a] callToolHandler_classifies [OF b]
    by (simp add: int_toString_def nat_toString.simps digit_char_def)
qed

text \<open>
  C10. An unknown tool name and arguments that fail the guard of their tool are thrown as
  plain errors inside the handler: the text of the response begins with
  \<^verbatim>\<open>Internal Server Error: \<close>, as for any internal failure, and the state is unchanged.
\<close>

theorem validation_failures_are_internal:
  \<open>(name req \<notin> {''brave_web_search'', ''brave_local_search'', ''brave_poi_details'',
                  ''brave_poi_descriptions''} \<longrightarrow>
      callToolHandler h req s =
        (\<lparr>content = [\<lparr>type = ''text'',
                       text_of = ''Internal Server Error: Unknown tool requested: '' @ name req\<rparr>],
          isError = True\<rparr>, s)) \<and>
   (name req = ''brave_web_search'' \<and> \<not> isBraveWebSearchArgs (arguments req) \<longrightarrow>
      callToolHandler h req s =
        (\<lparr>content = [\<lparr>type = ''text'',
                       text_of = ''Internal Server Error: Invalid arguments for tool "brave_web_search". Expected: { query: string, count?: number, offset?: number }''\<rparr>],
          isError = True\<rparr>, s)) \<and>
   (name req = ''brave_local_search'' \<and> \<not> isBraveLocalSearchArgs (arguments req) \<longrightarrow>
      callToolHandler h req s =
        (\<lparr>content = [\<lparr>type = ''text'',
                       text_of = ''Internal Server Error: Invalid arguments for tool "brave_local_search". Expected: { query: string, count?: number }''\<rparr>],
          isError = True\<rparr>, s)) \<and>
   (name req = ''brave_poi_details'' \<and> \<not> isBravePoiDetailsArgs (arguments req) \<longrightarrow>
      callToolHandler h req s =
        (\<lparr>content = [\<lparr>type = ''text'',
                       text_of = ''Internal Server Error: Invalid arguments for tool "brave_poi_details". Expected: { ids: string[] }''\<rparr>],
          isError = True\<rparr>, s)) \<and>
   (name req = ''brave_poi_descriptions'' \<and> \<not> isBravePoiDescriptionsArgs (arguments req) \<longrightarrow>
      callToolHandler h req s =
        (\<lparr>content = [\<lparr>type = ''text'',
                       text_of = ''Internal Server Error: Invalid arguments for tool "brave_poi_descriptions". Expected: { ids: string[] }''\<rparr>],
          isError = True\<rparr>, s))\<close>
  by (simp add: callToolHandler_def dispatch_def invalid_arguments_def)

text \<open>An unknown tool, a web search without \<^verbatim>\<open>query\<close>, a local search whose count is a
  string, and POI requests whose ids are not all strings.\<close>

theorem validation_failures_are_internal_witness:
  \<open>text_of (hd (content (fst (callToolHandler test_host
      \<lparr>name = ''unknown_tool'', arguments = JObj [(''query'', JStr ''test'')]\<rparr> empty_state)))) =
     ''Internal Server Error: Unknown tool requested: unknown_tool'' \<and>
   text_of (hd (content (fst (callToolHandler test_host
      \<lparr>name = ''brave_web_search'', arguments = JObj [(''count'', JNum (Fin 10))]\<rparr> empty_state)))) =
     ''Internal Server Error: Invalid arguments for tool "brave_web_search". Expected: { query: string, count?: number, offset?: number }'' \<and>
   text_of (hd (content (fst (callToolHandler test_host
      \<lparr>name = ''brave_local_search'',
       arguments = JObj [(''query'', JStr ''library''), (''count'', JStr ''abc'')]\<rparr> empty_state)))) =
     ''Internal Server Error: Invalid arguments for tool "brave_local_search". Expected: { query: string, count?: number }'' \<and>
   text_of (hd (content (fst (callToolHandler test_host
      \<lparr>name = ''brave_poi_details'', arguments = JObj [(''ids'', JArr [JStr ''poi1'', JNull])]\<rparr>
      empty_state)))) =
     ''Internal Server Error: Invalid arguments for tool "brave_poi_details". Expected: { ids: string[] }'' \<and>
   text_of (hd (content (fst (callToolHandler test_host
      \<lparr>name = ''brave_poi_descriptions'', arguments = JObj [(''ids'', JStr ''poi1'')]\<rparr>
      empty_state)))) =
     ''Internal Server Error: Invalid arguments for tool "brave_poi_descriptions". Expected: { ids: string[] }''\<close>
  using validation_failures_are_internal [of
          \<open>\<lparr>name = ''unknown_tool'', arguments = JObj [(''query'', JStr ''test'')]\<rparr>\<close>
          test_host empty_state]
        validation_failures_are_internal [of
          \<open>\<lparr>name = ''brave_web_search'', arguments = JObj [(''count'', JNum (Fin 10))]\<rparr>\<close>
          test_host empty_state]
        validation_failures_are_internal [of
          \<open>\<lparr>name = ''brave_local_search'',
            arguments = JObj [(''query'', JStr ''library''), (''count'', JStr ''abc'')]\<rparr>\<close>
          test_host empty_state]
        validation_failures_are_internal [of
          \<open>\<lparr>name = ''brave_poi_details'', arguments = JObj [(''ids'', JArr [JStr ''poi1'', JNull])]\<rparr>\<close>
          test_host empty_state]
        validation_failures_are_internal [of
          \<open>\<lparr>name = ''brave_poi_descriptions'', arguments = JObj [(''ids'', JStr ''poi1'')]\<rparr>\<close>
          test_host empty_state]
  by (simp add: isBraveWebSearchArgs_def isBraveLocalSearchArgs_def isBravePoiDetailsArgs_def
        isBravePoiDescriptionsArgs_def)

section \<open>Local search and its fallback\<close>

lemma fetchWebSearch_calls:
  "calls (snd (fetchWebSearch h q c o1 s)) = calls s @ [WebSearch q c o1]"
  by (simp add: fetchWebSearch_def callBraveApi_calls)

lemma fetchInitialLocalSearch_calls:
  "calls (snd (fetchInitialLocalSearch h q c s)) = calls s @ [InitialLocalSearch q c]"
  by (simp add: fetchInitialLocalSearch_def callBraveApi_calls)

lemma fetchPoiDetails_calls:
  "calls (snd (fetchPoiDetails h ids s)) = calls s @ [PoiDetails ids]"
  by (simp add: fetchPoiDetails_def callBraveApi_calls Let_def)

lemma fetchPoiDescriptions_calls:
  "calls (snd (fetchPoiDescriptions h ids s)) = calls s @ [PoiDescriptions ids]"
  by (simp add: fetchPoiDescriptions_def callBraveApi_calls Let_def)

lemma performWebSearch_calls:
  "calls (snd (performWebSearch h q c o1 s)) =
     calls s @ [WebSearch q (Some (with_default c 10)) (Some (with_default o1 0))]"
  using fetchWebSearch_calls [of h q "Some (with_default c 10)" "Some (with_default o1 0)" s]
  by (auto simp: performWebSearch_def split: prod.splits sum.splits)

lemma join_Cons: "\<exists>rest. join sep (x # xs) = x @ rest"
  by (cases xs) simp_all

lemma formatWebResults_shape:
  "formatWebResults d = ''No web results found.'' \<or>
   (\<exists>rest. formatWebResults d = ''Title: '' @ rest)"
proof (cases "case web_results d of None \<Rightarrow> [] | Some rs \<Rightarrow> rs")
  case Nil
  then show ?thesis by (simp add: formatWebResults_def)
next
  case (Cons r rs)
  define line where
    "line = (\<lambda>(t, d, u). ''Title: '' @ t @ newline @ ''Description: '' @ d @ newline @ ''URL: '' @ u)"
  define triple where
    "triple = (\<lambda>r::web_result. (or_else (title r) ''N/A'', or_else (description r) ''N/A'',
                                 or_else (result_url r) ''N/A''))"
  have f: "formatWebResults d =
             join (newline @ newline) (line (triple r) # map line (map triple rs))"
    using Cons by (simp add: formatWebResults_def Let_def line_def triple_def)
  obtain rest where
    "join (newline @ newline) (line (triple r) # map line (map triple rs)) = line (triple r) @ rest"
    using join_Cons by blast
  moreover have "\<exists>rest'. line (triple r) = ''Title: '' @ rest'"
    by (simp add: line_def triple_def)
  ultimately show ?thesis
    using f by auto
qed

lemma performWebSearch_not_local_message:
  "fst (performWebSearch h q c o1 s) \<noteq> Inr ''No local results found.''"
proof -
  have "formatWebResults d \<noteq> ''No local results found.''" for d
    using formatWebResults_shape [of d] by auto
  then show ?thesis
    by (auto simp: performWebSearch_def split: prod.splits sum.splits)
qed

text \<open>
  The path without ids. When the initial location search succeeds and no location id can
  be extracted from it, the local search is the web search for the same query and count
  from there on: the client functions entered are the initial search and one web search
  with the original query and count and offset 0, no POI function among them, and on
  this path the result is not the local formatter's own \<^verbatim>\<open>No local results found.\<close>
\<close>

theorem local_search_no_ids:
  fixes h query count s webData
  defines "c \<equiv> with_default count 5"
  assumes "fst (fetchInitialLocalSearch h query c s) = Inr webData"
    and "locationIds webData = []"
  shows "performLocalSearch h query count s =
           performWebSearch h query (Some c) None (snd (fetchInitialLocalSearch h query c s)) \<and>
         calls (snd (performLocalSearch h query count s)) =
           calls s @ [InitialLocalSearch query c, WebSearch query (Some c) (Some (Fin 0))] \<and>
         fst (performLocalSearch h query count s) \<noteq> Inr ''No local results found.''"
proof -
  have run: "performLocalSearch h query count s =
           performWebSearch h query (Some c) None (snd (fetchInitialLocalSearch h query c s))"
    using assms by (auto simp: performLocalSearch_def Let_def split: prod.splits sum.splits)
  show ?thesis
    by (simp add: run performWebSearch_calls fetchInitialLocalSearch_calls
          performWebSearch_not_local_message)
qed

text \<open>A local search that finds no location falls back to the web results.\<close>

theorem local_search_no_ids_witness:
  "calls (snd (performLocalSearch fallback_host ''no locations here'' (Some (Fin 5)) empty_state)) =
     [InitialLocalSearch ''no locations here'' (Fin 5),
      WebSearch ''no locations here'' (Some (Fin 5)) (Some (Fin 0))] \<and>
   fst (performLocalSearch fallback_host ''no locations here'' (Some (Fin 5)) empty_state) \<noteq>
     Inr ''No local results found.''"
proof -
  have a: "fst (fetchInitialLocalSearch fallback_host ''no locations here''
                 (with_default (Some (Fin 5)) 5) empty_state) = Inr no_locations"
    by (simp add: fallback_host_def example_defs)
  have b: "locationIds no_locations = []"
    by (simp add: locationIds_def no_locations_def)
  have e: "calls empty_state = []"
    by (simp add: empty_state_def)
  from local_search_no_ids [OF a b]
  have "calls (snd (performLocalSearch fallback_host ''no locations here'' (Some (Fin 5)) empty_state)) =
          calls empty_state @ [InitialLocalSearch ''no locations here'' (with_default (Some (Fin 5)) 5),
            WebSearch ''no locations here'' (Some (with_default (Some (Fin 5)) 5)) (Some (Fin 0))]"
    and "fst (performLocalSearch fallback_host ''no locations here'' (Some (Fin 5)) empty_state) \<noteq>
          Inr ''No local results found.''"
    by blast+
  then show ?thesis
    by (simp add: e)
qed

text \<open>
  C4. The path without ids does what the claim says of it (\<open>local_search_no_ids\<close>), but
  local search does report the absence of results on its own: when the location search
  finds an id and the POI-detail response has no results, \<open>performLocalSearch\<close> returns
  the formatter's \<^verbatim>\<open>No local results found.\<close> after the initial search and the two POI
  fetches, three requests in all, and enters no web search. The description of the tool in
  \<^verbatim>\<open>tools.ts\<close> promises the fallback to web search whenever no local results are found.
\<close>

theorem local_search_reports_no_results:
  "locationIds one_location = [''poi1''] \<and>
   fst (performLocalSearch empty_pois_host ''local test'' (Some (Fin 3)) empty_state) =
     Inr ''No local results found.'' \<and>
   calls (snd (performLocalSearch empty_pois_host ''local test'' (Some (Fin 3)) empty_state)) =
     [InitialLocalSearch ''local test'' (Fin 3), PoiDetails [Some ''poi1''],
      PoiDescriptions [Some ''poi1'']] \<and>
   length (sent (snd (performLocalSearch empty_pois_host ''local test'' (Some (Fin 3))
                        empty_state))) = 3"
  by (simp add: performLocalSearch_def locationIds_def one_location_def formatLocalResults_def
        empty_pois_host_def example_defs)

text \<open>
  C3. When the initial location search succeeds with at least one location id and the
  POI-detail fetch fails, or the detail fetch succeeds and the POI-description fetch
  fails, the local search is the web search for the same query and count from the state
  the failed fetch left: the failure is not passed on, each POI function was entered
  once (the description fetch not at all after a failed detail fetch), and the web search
  once.
\<close>

theorem local_search_enrichment_failure:
  fixes h query count s webData
  defines "c \<equiv> with_default count 5"
  defines "s1 \<equiv> snd (fetchInitialLocalSearch h query c s)"
  defines "ids \<equiv> map Some (locationIds webData)"
  defines "s2 \<equiv> snd (fetchPoiDetails h ids s1)"
  defines "s3 \<equiv> snd (fetchPoiDescriptions h ids s2)"
  assumes init: "fst (fetchInitialLocalSearch h query c s) = Inr webData"
    and some: "locationIds webData \<noteq> []"
  shows "(isl (fst (fetchPoiDetails h ids s1)) \<longrightarrow>
            performLocalSearch h query count s = performWebSearch h query (Some c) None s2 \<and>
            calls (snd (performLocalSearch h query count s)) =
              calls s @ [InitialLocalSearch query c, PoiDetails ids,
                         WebSearch query (Some c) (Some (Fin 0))]) \<and>
         (\<not> isl (fst (fetchPoiDetails h ids s1)) \<and> isl (fst (fetchPoiDescriptions h ids s2)) \<longrightarrow>
            performLocalSearch h query count s = performWebSearch h query (Some c) None s3 \<and>
            calls (snd (performLocalSearch h query count s)) =
              calls s @ [InitialLocalSearch query c, PoiDetails ids, PoiDescriptions ids,
                         WebSearch query (Some c) (Some (Fin 0))])"
proof (intro conjI impI)
  assume d: "isl (fst (fetchPoiDetails h ids s1))"
  show run: "performLocalSearch h query count s = performWebSearch h query (Some c) None s2"
    using init some d
    by (auto simp: performLocalSearch_def Let_def c_def s1_def ids_def s2_def
          split: prod.splits sum.splits)
  show "calls (snd (performLocalSearch h query count s)) =
          calls s @ [InitialLocalSearch query c, PoiDetails ids,
                     WebSearch query (Some c) (Some (Fin 0))]"
    by (simp add: run performWebSearch_calls)
       (simp add: s2_def s1_def fetchPoiDetails_calls fetchInitialLocalSearch_calls)
next
  assume d: "\<not> isl (fst (fetchPoiDetails h ids s1)) \<and> isl (fst (fetchPoiDescriptions h ids s2))"
  show run: "performLocalSearch h query count s = performWebSearch h query (Some c) None s3"
    using init some d
    by (auto simp: performLocalSearch_def Let_def c_def s1_def ids_def s2_def s3_def
          split: prod.splits sum.splits)
  show "calls (snd (performLocalSearch h query count s)) =
          calls s @ [InitialLocalSearch query c, PoiDetails ids, PoiDescriptions ids,
                     WebSearch query (Some c) (Some (Fin 0))]"
    by (simp add: run performWebSearch_calls)
       (simp add: s3_def s2_def s1_def fetchPoiDescriptions_calls fetchPoiDetails_calls
          fetchInitialLocalSearch_calls)
qed

text \<open>One host answers the detail request with a 500, the other loses the connection
  on the description request.\<close>

theorem local_search_enrichment_failure_witness:
  "calls (snd (performLocalSearch details_down_host ''local test'' (Some (Fin 3)) empty_state)) =
     [InitialLocalSearch ''local test'' (Fin 3), PoiDetails [Some ''poi1''],
      WebSearch ''local test'' (Some (Fin 3)) (Some (Fin 0))] \<and>
   calls (snd (performLocalSearch descriptions_down_host ''local test'' (Some (Fin 3)) empty_state)) =
     [InitialLocalSearch ''local test'' (Fin 3), PoiDetails [Some ''poi1''],
      PoiDescriptions [Some ''poi1''], WebSearch ''local test'' (Some (Fin 3)) (Some (Fin 0))] \<and>
   fst (performLocalSearch details_down_host ''local test'' (Some (Fin 3)) empty_state) =
     Inr ''No web results found.''"
proof -
  have ids: "locationIds one_location = [''poi1'']"
    by (simp add: locationIds_def one_location_def)
  then have some: "locationIds one_location \<noteq> []"
    by simp
  have a: "fst (fetchInitialLocalSearch details_down_host ''local test''
                 (with_default (Some (Fin 3)) 5) empty_state) = Inr one_location"
    by (simp add: details_down_host_def example_defs)
  have a': "isl (fst (fetchPoiDetails details_down_host [Some ''poi1'']
                 (snd (fetchInitialLocalSearch details_down_host ''local test'' (Fin 3) empty_state))))"
    by (simp add: details_down_host_def example_defs)
  have b: "fst (fetchInitialLocalSearch descriptions_down_host ''local test''
                 (with_default (Some (Fin 3)) 5) empty_state) = Inr one_location"
    by (simp add: descriptions_down_host_def example_defs)
  have b': "\<not> isl (fst (fetchPoiDetails descriptions_down_host [Some ''poi1'']
                 (snd (fetchInitialLocalSearch descriptions_down_host ''local test'' (Fin 3) empty_state)))) \<and>
            isl (fst (fetchPoiDescriptions descriptions_down_host [Some ''poi1'']
                 (snd (fetchPoiDetails descriptions_down_host [Some ''poi1'']
                   (snd (fetchInitialLocalSearch descriptions_down_host ''local test'' (Fin 3)
                          empty_state))))))"
    by (simp add: descriptions_down_host_def example_defs)
  have w: "fst (performWebSearch details_down_host ''local test'' (Some (Fin 3)) None
                 (snd (fetchPoiDetails details_down_host [Some ''poi1'']
                   (snd (fetchInitialLocalSearch details_down_host ''local test'' (Fin 3)
                          empty_state))))) = Inr ''No web results found.''"
    by (simp add: performWebSearch_def formatWebResults_def one_location_def
          details_down_host_def example_defs)
  have e: "calls empty_state = []"
    by (simp add: empty_state_def)
  note first = local_search_enrichment_failure [OF a some, THEN conjunct1, rule_format]
  note second = local_search_enrichment_failure [OF b some, THEN conjunct2, rule_format]
  have a'': "isl (fst (fetchPoiDetails details_down_host (map Some (locationIds one_location))
                 (snd (fetchInitialLocalSearch details_down_host ''local test''
                        (with_default (Some (Fin 3)) 5) empty_state))))"
    using a' by (simp add: ids)
  have b'': "\<not> isl (fst (fetchPoiDetails descriptions_down_host (map Some (locationIds one_location))
                 (snd (fetchInitialLocalSearch descriptions_down_host ''local test''
                        (with_default (Some (Fin 3)) 5) empty_state)))) \<and>
            isl (fst (fetchPoiDescriptions descriptions_down_host (map Some (locationIds one_location))
                 (snd (fetchPoiDetails descriptions_down_host (map Some (locationIds one_location))
                   (snd (fetchInitialLocalSearch descriptions_down_host ''local test''
                          (with_default (Some (Fin 3)) 5) empty_state))))))"
    using b' by (simp add: ids)
  have "calls (snd (performLocalSearch details_down_host ''local test'' (Some (Fin 3)) empty_state)) =
     [InitialLocalSearch ''local test'' (Fin 3), PoiDetails [Some ''poi1''],
      WebSearch ''local test'' (Some (Fin 3)) (Some (Fin 0))]"
    using first [OF a'', THEN conjunct2] by (simp add: ids e)
  moreover have "calls (snd (performLocalSearch descriptions_down_host ''local test'' (Some (Fin 3)) empty_state)) =
     [InitialLocalSearch ''local test'' (Fin 3), PoiDetails [Some ''poi1''],
      PoiDescriptions [Some ''poi1''], WebSearch ''local test'' (Some (Fin 3)) (Some (Fin 0))]"
    using second [OF b'', THEN conjunct2] by (simp add: ids e)
  moreover have "fst (performLocalSearch details_down_host ''local test'' (Some (Fin 3)) empty_state) =
     Inr ''No web results found.''"
    using first [OF a'', THEN conjunct1] w by (simp add: ids)
  ultimately show ?thesis
    by blast
qed

section \<open>One budget for both searches on \<^verbatim>\<open>web/search\<close>\<close>

lemma pathname_fetchWebSearch_url: "pathname (fetchWebSearch_url q c o1) = ''/res/v1/web/search''"
  by (simp add: fetchWebSearch_url_def Let_def pathname_set_param new_URL_def
        split: option.splits)

lemma pathname_fetchInitialLocalSearch_url:
  "pathname (fetchInitialLocalSearch_url q c) = ''/res/v1/web/search''"
  by (simp add: fetchInitialLocalSearch_url_def Let_def pathname_set_param new_URL_def)

lemma endpoint_web_search:
  "pathname u = ''/res/v1/web/search'' \<Longrightarrow> getEndpointFromUrl u = ''web/search''"
  by (simp add: getEndpointFromUrl_def)

lemma endpoint_pois: "getEndpointFromUrl (ids_url ''/res/v1/local/pois'' ids) = ''local/pois''"
  by (simp add: getEndpointFromUrl_def ids_url_eq)

lemma endpoint_descriptions:
  "getEndpointFromUrl (ids_url ''/res/v1/local/descriptions'' ids) = ''local/descriptions''"
  by (simp add: getEndpointFromUrl_def ids_url_eq)

lemma skipped_fetchWebSearch_url:
  "rateLimitSkipped h (fetchWebSearch_url q c o1) =
     (NODE_ENV h = Some ''test'' \<and> \<not> str_includes q ''req'')"
proof -
  have "or_else (sp_get ''q'' (searchParams (fetchWebSearch_url q c o1))) [] = q"
    by (simp add: sp_get_q_fetchWebSearch_url)
  then show ?thesis by (auto simp: rateLimitSkipped_def Let_def)
qed

lemma skipped_fetchInitialLocalSearch_url:
  "rateLimitSkipped h (fetchInitialLocalSearch_url q c) =
     (NODE_ENV h = Some ''test'' \<and> \<not> str_includes q ''req'')"
proof -
  have "sp_get ''q'' (searchParams (fetchInitialLocalSearch_url q c)) = Some q"
    by (simp add: fetchInitialLocalSearch_url_def Let_def sp_get_set_param)
  then have "or_else (sp_get ''q'' (searchParams (fetchInitialLocalSearch_url q c))) [] = q"
    by simp
  then show ?thesis by (auto simp: rateLimitSkipped_def Let_def)
qed

text \<open>What a permitted call leaves in the tracker of its endpoint.\<close>

lemma checkRateLimit_permitted:
  assumes "\<not> rateLimitSkipped h u" and "fst (checkRateLimit h e u s) = Inr ()"
  shows "\<exists>t. endpointTrackers (snd (checkRateLimit h e u s)) e = Some t \<and>
             lastCallTime t = clock h (Suc (ticks s))"
  using assms
  by (auto simp: checkRateLimit_def Date_now_def Let_def split: if_splits)

lemma callBraveApi_permitted:
  assumes "\<not> rateLimitSkipped h u" and "fst (callBraveApi h r u s) = Inr d"
  shows "\<exists>t. endpointTrackers (snd (callBraveApi h r u s)) (getEndpointFromUrl u) = Some t \<and>
             lastCallTime t = clock h (Suc (ticks s))"
proof -
  obtain res s1 where c: "checkRateLimit h (getEndpointFromUrl u) u s = (res, s1)"
    by (cases "checkRateLimit h (getEndpointFromUrl u) u s")
  with assms(2) have res: "res = Inr ()"
    by (cases res) (auto simp: callBraveApi_def)
  have f: "fst (checkRateLimit h (getEndpointFromUrl u) u s) = Inr ()"
    using c res by simp
  have "endpointTrackers (snd (callBraveApi h r u s)) = endpointTrackers s1"
    using c res by (simp add: callBraveApi_def)
  then show ?thesis
    using checkRateLimit_permitted [OF assms(1) f] c by simp
qed

lemma callBraveApi_refused:
  assumes "\<not> rateLimitSkipped h u"
    and "endpointTrackers s (getEndpointFromUrl u) = Some t"
    and "clock h (ticks s) - lastCallTime t < 1000"
  shows "fst (callBraveApi h r u s) = Inl rateLimitExceeded"
  using assms
  by (simp add: callBraveApi_def checkRateLimit_def tracker_of_def Date_now_def Let_def)

lemma performWebSearch_refused:
  assumes "\<not> (NODE_ENV h = Some ''test'' \<and> \<not> str_includes q ''req'')"
    and "endpointTrackers s ''web/search'' = Some t"
    and "clock h (ticks s) - lastCallTime t < 1000"
  shows "fst (performWebSearch h q c o1 s) = Inl rateLimitExceeded"
proof -
  let ?u = "fetchWebSearch_url q (Some (with_default c 10)) (Some (with_default o1 0))"
  let ?s = "s\<lparr>calls := calls s @ [WebSearch q (Some (with_default c 10)) (Some (with_default o1 0))]\<rparr>"
  have e: "getEndpointFromUrl ?u = ''web/search''"
    by (rule endpoint_web_search) (rule pathname_fetchWebSearch_url)
  have "fst (callBraveApi h (web_reply h) ?u ?s) = Inl rateLimitExceeded"
    by (rule callBraveApi_refused [where t = t])
       (use assms in \<open>simp_all add: skipped_fetchWebSearch_url e\<close>)
  then show ?thesis
    by (auto simp: performWebSearch_def fetchWebSearch_def split: prod.splits sum.splits)
qed

lemma fetchPoiDetails_frame:
  "endpointTrackers (snd (fetchPoiDetails h ids s)) ''web/search'' =
     endpointTrackers s ''web/search''"
  using callBraveApi_frame [of "''web/search''" "ids_url ''/res/v1/local/pois'' ids" h
          "poi_reply h" "s\<lparr>calls := calls s @ [PoiDetails ids]\<rparr>"]
  by (simp add: fetchPoiDetails_def Let_def endpoint_pois)

lemma fetchPoiDescriptions_frame:
  "endpointTrackers (snd (fetchPoiDescriptions h ids s)) ''web/search'' =
     endpointTrackers s ''web/search''"
  using callBraveApi_frame [of "''web/search''" "ids_url ''/res/v1/local/descriptions'' ids" h
          "desc_reply h" "s\<lparr>calls := calls s @ [PoiDescriptions ids]\<rparr>"]
  by (simp add: fetchPoiDescriptions_def Let_def endpoint_descriptions)

lemma fetchInitialLocalSearch_permitted:
  assumes "\<not> (NODE_ENV h = Some ''test'' \<and> \<not> str_includes q ''req'')"
    and "fst (fetchInitialLocalSearch h q c s) = Inr d"
  shows "\<exists>t. endpointTrackers (snd (fetchInitialLocalSearch h q c s)) ''web/search'' = Some t \<and>
             lastCallTime t = clock h (Suc (ticks s))"
proof -
  let ?u = "fetchInitialLocalSearch_url q c"
  let ?s = "s\<lparr>calls := calls s @ [InitialLocalSearch q c]\<rparr>"
  have a: "\<not> rateLimitSkipped h ?u"
    using assms(1) by (simp add: skipped_fetchInitialLocalSearch_url)
  have b: "fst (callBraveApi h (web_reply h) ?u ?s) = Inr d"
    using assms(2) by (simp add: fetchInitialLocalSearch_def)
  have e: "getEndpointFromUrl ?u = ''web/search''"
    by (rule endpoint_web_search) (rule pathname_fetchInitialLocalSearch_url)
  show ?thesis
    using callBraveApi_permitted [OF a b] by (simp add: fetchInitialLocalSearch_def e)
qed

text \<open>
  C5. The URLs of \<open>fetchWebSearch\<close> and \<open>fetchInitialLocalSearch\<close> have the same endpoint
  identifier \<^verbatim>\<open>web/search\<close>, hence one tracker. So when the limiter is not skipped and the
  initial location search of a local search was let through, a fallback web search
  (because no id was found, or the detail fetch failed, or the description fetch failed)
  whose reading of the clock is less than 1000 ms after the time the initial search
  recorded is refused: the local search fails with the rate-limit error.
\<close>

theorem fallback_shares_web_search_budget:
  fixes h query count s webData
  defines "c \<equiv> with_default count 5"
  defines "s1 \<equiv> snd (fetchInitialLocalSearch h query c s)"
  defines "ids \<equiv> map Some (locationIds webData)"
  defines "s2 \<equiv> snd (fetchPoiDetails h ids s1)"
  defines "s3 \<equiv> snd (fetchPoiDescriptions h ids s2)"
  defines "recorded \<equiv> clock h (Suc (ticks s))"
  shows "getEndpointFromUrl (fetchWebSearch_url query c1 o1) = ''web/search'' \<and>
   getEndpointFromUrl (fetchInitialLocalSearch_url query c2) = ''web/search'' \<and>
   (\<not> (NODE_ENV h = Some ''test'' \<and> \<not> str_includes query ''req'') \<and>
    fst (fetchInitialLocalSearch h query c s) = Inr webData \<and>
    (locationIds webData = [] \<and> clock h (ticks s1) - recorded < 1000 \<or>
     locationIds webData \<noteq> [] \<and> isl (fst (fetchPoiDetails h ids s1)) \<and>
       clock h (ticks s2) - recorded < 1000 \<or>
     locationIds webData \<noteq> [] \<and> \<not> isl (fst (fetchPoiDetails h ids s1)) \<and>
       isl (fst (fetchPoiDescriptions h ids s2)) \<and> clock h (ticks s3) - recorded < 1000) \<longrightarrow>
    fst (performLocalSearch h query count s) = Inl rateLimitExceeded)"
proof (intro conjI impI)
  show "getEndpointFromUrl (fetchWebSearch_url query c1 o1) = ''web/search''"
    by (rule endpoint_web_search) (rule pathname_fetchWebSearch_url)
  show "getEndpointFromUrl (fetchInitialLocalSearch_url query c2) = ''web/search''"
    by (rule endpoint_web_search) (rule pathname_fetchInitialLocalSearch_url)
next
  assume hyp: "\<not> (NODE_ENV h = Some ''test'' \<and> \<not> str_includes query ''req'') \<and>
    fst (fetchInitialLocalSearch h query c s) = Inr webData \<and>
    (locationIds webData = [] \<and> clock h (ticks s1) - recorded < 1000 \<or>
     locationIds webData \<noteq> [] \<and> isl (fst (fetchPoiDetails h ids s1)) \<and>
       clock h (ticks s2) - recorded < 1000 \<or>
     locationIds webData \<noteq> [] \<and> \<not> isl (fst (fetchPoiDetails h ids s1)) \<and>
       isl (fst (fetchPoiDescriptions h ids s2)) \<and> clock h (ticks s3) - recorded < 1000)"
  then have active: "\<not> (NODE_ENV h = Some ''test'' \<and> \<not> str_includes query ''req'')"
    and init: "fst (fetchInitialLocalSearch h query c s) = Inr webData"
    by auto
  from fetchInitialLocalSearch_permitted [OF active init]
  obtain t where t: "endpointTrackers s1 ''web/search'' = Some t" "lastCallTime t = recorded"
    by (auto simp: s1_def recorded_def)
  have refused: "fst (performWebSearch h query (Some c) None s') = Inl rateLimitExceeded"
    if "endpointTrackers s' ''web/search'' = Some t" and "clock h (ticks s') - recorded < 1000"
    for s'
    using performWebSearch_refused [OF active that(1)] that(2) t(2) by simp
  from hyp consider
      (none) "locationIds webData = []" "clock h (ticks s1) - recorded < 1000"
    | (details) "locationIds webData \<noteq> []" "isl (fst (fetchPoiDetails h ids s1))"
        "clock h (ticks s2) - recorded < 1000"
    | (descriptions) "locationIds webData \<noteq> []" "\<not> isl (fst (fetchPoiDetails h ids s1))"
        "isl (fst (fetchPoiDescriptions h ids s2))" "clock h (ticks s3) - recorded < 1000"
    by blast
  then show "fst (performLocalSearch h query count s) = Inl rateLimitExceeded"
  proof cases
    case none
    have "fst (performWebSearch h query (Some c) None s1) = Inl rateLimitExceeded"
      by (rule refused) (use t none in simp_all)
    then show ?thesis
      using init none
      by (auto simp: performLocalSearch_def Let_def c_def s1_def split: prod.splits sum.splits)
  next
    case details
    have "fst (performWebSearch h query (Some c) None s2) = Inl rateLimitExceeded"
      by (rule refused) (use t details in \<open>simp_all add: s2_def fetchPoiDetails_frame\<close>)
    then show ?thesis
      using init details
      by (auto simp: performLocalSearch_def Let_def c_def s1_def ids_def s2_def
            split: prod.splits sum.splits)
  next
    case descriptions
    have "fst (performWebSearch h query (Some c) None s3) = Inl rateLimitExceeded"
      by (rule refused)
         (use t descriptions in
           \<open>simp_all add: s3_def s2_def fetchPoiDetails_frame fetchPoiDescriptions_frame\<close>)
    then show ?thesis
      using init descriptions
      by (auto simp: performLocalSearch_def Let_def c_def s1_def ids_def s2_def s3_def
            split: prod.splits sum.splits)
  qed
qed

text \<open>On a production host whose clock stands at 10000 during the whole call, a local
  search that finds no location is refused its fallback.\<close>

theorem fallback_shares_web_search_budget_witness:
  "fst (fetchInitialLocalSearch busy_host ''pizza'' (Fin 5) empty_state) = Inr no_locations \<and>
   locationIds no_locations = [] \<and>
   fst (performLocalSearch busy_host ''pizza'' None empty_state) = Inl rateLimitExceeded"
proof -
  have a: "fst (fetchInitialLocalSearch busy_host ''pizza'' (with_default None 5) empty_state) =
             Inr no_locations"
    by (simp add: busy_host_def example_defs)
  have b: "locationIds no_locations = []"
    by (simp add: locationIds_def no_locations_def)
  have c: "\<not> (NODE_ENV busy_host = Some ''test'' \<and> \<not> str_includes ''pizza'' ''req'')"
    by (simp add: busy_host_def constant_host_def)
  have d: "clock busy_host n - clock busy_host (Suc (ticks empty_state)) < 1000" for n
    by (simp add: busy_host_def constant_host_def frozen_clock_def)
  have "fst (performLocalSearch busy_host ''pizza'' None empty_state) = Inl rateLimitExceeded"
    using fallback_shares_web_search_budget [where h = busy_host and query = "''pizza''"
            and count = None and s = empty_state and webData = no_locations,
            THEN conjunct2, THEN conjunct2, rule_format]
          a b c d
    by blast
  then show ?thesis
    using a b by simp
qed

end
